theory Spec2Isabelle
  imports Complex_Main "HOL-Library.Multiset" "HOL-Library.Sublist"
begin

section \<open>Text and its normalisation (dedupe.py)\<close>

text \<open>
  Python's \<open>str\<close> is modelled by \<open>string\<close>, restricted to ASCII text:
  \<open>lower()\<close> maps \<open>A..Z\<close> to \<open>a..z\<close>, and the white space of \<open>strip()\<close> and of the
  regular expression \<open>\s\<close> is the ASCII part of \<open>str.isspace\<close>
  (tab, line feed, vertical tab, form feed, carriage return, the separators
  0x1C..0x1F and the blank).
\<close>

definition lower_char :: "char \<Rightarrow> char" where
  "lower_char c =
     (case map_of (zip ''ABCDEFGHIJKLMNOPQRSTUVWXYZ'' ''abcdefghijklmnopqrstuvwxyz'') c of
        Some l \<Rightarrow> l
      | None \<Rightarrow> c)"

definition lower :: "string \<Rightarrow> string" where
  "lower s = map lower_char s"

definition isspace :: "char \<Rightarrow> bool" where
  "isspace c \<longleftrightarrow>
     c \<in> set [CHR 0x09, CHR 0x0A, CHR 0x0B, CHR 0x0C, CHR 0x0D,
              CHR 0x1C, CHR 0x1D, CHR 0x1E, CHR 0x1F, CHR 0x20]"

definition strip :: "string \<Rightarrow> string" where
  "strip s = rev (dropWhile isspace (rev (dropWhile isspace s)))"

text \<open>\<open>re.sub(r"\s+", " ", s)\<close>: every maximal run of white space becomes one blank.\<close>

function collapse_whitespace :: "string \<Rightarrow> string" where
  "collapse_whitespace [] = []"
| "collapse_whitespace (c # cs) =
     (if isspace c then CHR 0x20 # collapse_whitespace (dropWhile isspace cs)
      else c # collapse_whitespace cs)"
  by pat_completeness auto
termination
  by (relation "measure length") (auto simp: length_dropWhile_le less_Suc_eq_le)

text \<open>
  \<open>_normalize_identifier(value) = (value or "").lower().strip()\<close> and
  \<open>_normalize_title(title) = re.sub(r"\s+", " ", title or "").strip().lower()\<close>.
  The argument is a \<open>str\<close> at every call, so \<open>value or ""\<close> is \<open>value\<close>.
\<close>

definition normalize_identifier :: "string \<Rightarrow> string" where
  "normalize_identifier v = strip (lower v)"

definition normalize_title :: "string \<Rightarrow> string" where
  "normalize_title t = lower (strip (collapse_whitespace t))"


section \<open>Data model (models.py)\<close>

text \<open>
  A \<open>datetime\<close> is its wall-clock reading in microseconds since the epoch together with
  the offset of its time zone from UTC, \<open>None\<close> for a naive value.
\<close>

record datetime =
  wall_us :: int
  tzinfo :: "int option"

record zotero_item =
  key :: string
  title :: string
  abstract :: "string option"
  creators :: "string list"
  tags :: "string list"
  doi :: "string option"
  url :: "string option"

section \<open>Settings read by the ranker\<close>

text \<open>
  Modelled from the spec: \<open>settings.py\<close> is not among the sources. The records below hold
  the fields of \<open>Settings\<close> that \<open>score_rank.py\<close> reads: the named weights of the
  composite score (\<open>journal_quality\<close> may be absent, the source reads it with
  \<open>getattr(weights, "journal_quality", 0.0)\<close>), the two label thresholds, the day
  boundaries of the recency staircase and the two whitelists.
\<close>

record weights =
  similarity :: real
  recency :: real
  citations :: real
  altmetric :: real
  journal_quality :: "real option"
  author_bonus :: real
  venue_bonus :: real

record thresholds =
  must_read :: real
  "consider" :: real

record scoring =
  weights :: weights
  thresholds :: thresholds
  decay_days :: "string \<rightharpoonup> int"
  whitelist_authors :: "string list"
  whitelist_venues :: "string list"

record settings =
  scoring :: scoring


text \<open>
  \<open>CandidateWork\<close>. The field \<open>extra\<close> is a dictionary of arbitrary objects that no
  function of the pipeline reads; its type is left open.
\<close>

record 'x candidate_work =
  source :: string
  "identifier" :: string
  title :: string
  abstract :: "string option"
  authors :: "string list"
  doi :: "string option"
  url :: "string option"
  published :: "datetime option"
  venue :: "string option"
  metrics :: "string \<rightharpoonup> real"
  extra :: 'x

text \<open>\<open>RankedWork(CandidateWork)\<close>: the candidate's fields followed by the scoring fields.\<close>

record 'x ranked_work = "'x candidate_work" +
  score :: real
  similarity :: real
  recency_score :: real
  metric_score :: real
  author_bonus :: real
  venue_bonus :: real
  journal_quality :: real
  journal_sjr :: "real option"
  label :: string

datatype py_error = ValueError string | RuntimeError string


section \<open>The dedupe engine (dedupe.py)\<close>

record dedupe_engine =
  title_threshold :: real
  existing_doi :: "string set"
  existing_ids :: "string set"
  existing_titles :: "string list"

text \<open>\<open>DedupeEngine.__init__\<close> with \<open>_load_existing\<close> over the items of the storage.\<close>

definition load_item :: "dedupe_engine \<Rightarrow> zotero_item \<Rightarrow> dedupe_engine" where
  "load_item eng item =
     (let eng1 = (case zotero_item.doi item of
                    Some d \<Rightarrow> if d \<noteq> [] then eng\<lparr>existing_doi := insert (normalize_identifier d) (existing_doi eng)\<rparr>
                              else eng
                  | None \<Rightarrow> eng);
          eng2 = (case zotero_item.url item of
                    Some u \<Rightarrow> if u \<noteq> [] then eng1\<lparr>existing_ids := insert (normalize_identifier u) (existing_ids eng1)\<rparr>
                              else eng1
                  | None \<Rightarrow> eng1)
      in eng2\<lparr>existing_titles := existing_titles eng2 @ [normalize_title (zotero_item.title item)]\<rparr>)"

definition DedupeEngine :: "zotero_item list \<Rightarrow> real \<Rightarrow> dedupe_engine" where
  "DedupeEngine items threshold =
     foldl load_item
       \<lparr>title_threshold = threshold, existing_doi = {}, existing_ids = {}, existing_titles = []\<rparr>
       items"

text \<open>
  \<open>_is_title_in_list\<close>. \<open>fuzz.token_set_ratio\<close> belongs to the rapidfuzz library and is
  a parameter \<open>tsr\<close> of the model, a score between 0 and 100.
\<close>

fun is_title_in_list :: "(string \<Rightarrow> string \<Rightarrow> real) \<Rightarrow> string \<Rightarrow> string list \<Rightarrow> real \<Rightarrow> bool" where
  "is_title_in_list tsr t [] threshold = False"
| "is_title_in_list tsr t (existing # rest) threshold =
     (if existing = [] then is_title_in_list tsr t rest threshold
      else if tsr t existing / 100 \<ge> threshold then True
      else is_title_in_list tsr t rest threshold)"

definition is_title_duplicate :: "(string \<Rightarrow> string \<Rightarrow> real) \<Rightarrow> dedupe_engine \<Rightarrow> string \<Rightarrow> bool" where
  "is_title_duplicate tsr eng t = is_title_in_list tsr t (existing_titles eng) (title_threshold eng)"

text \<open>The three locals of \<open>filter\<close> that the loop updates.\<close>

record 'x filter_state =
  deduped :: "'x candidate_work list"
  candidate_titles :: "string list"
  seen_keys :: "string set"

text \<open>
  \<open>doi = _normalize_identifier(work.doi) if work.doi else None\<close>: \<open>None\<close> for a missing or
  empty DOI.
\<close>

definition work_doi :: "'x candidate_work \<Rightarrow> string option" where
  "work_doi work =
     (case candidate_work.doi work of
        None \<Rightarrow> None
      | Some d \<Rightarrow> if d = [] then None else Some (normalize_identifier d))"

text \<open>The test \<open>doi and doi in s\<close>: a \<open>None\<close> or empty \<open>doi\<close> is false.\<close>

definition doi_in :: "string option \<Rightarrow> string set \<Rightarrow> bool" where
  "doi_in d s = (case d of None \<Rightarrow> False | Some k \<Rightarrow> k \<noteq> [] \<and> k \<in> s)"

text \<open>One iteration of the loop of \<open>filter\<close>; each \<open>continue\<close> returns the state as it is.\<close>

definition filter_step ::
  "(string \<Rightarrow> string \<Rightarrow> real) \<Rightarrow> dedupe_engine \<Rightarrow> 'x filter_state \<Rightarrow> 'x candidate_work \<Rightarrow> 'x filter_state"
where
  "filter_step tsr eng st work =
     (let k = normalize_identifier (identifier work);
          d = work_doi work;
          t = normalize_title (candidate_work.title work)
      in if doi_in d (existing_doi eng) then st
         else if doi_in d (seen_keys st) then st
         else if k \<in> existing_ids eng \<or> k \<in> seen_keys st then st
         else if is_title_duplicate tsr eng t
                 \<or> is_title_in_list tsr t (candidate_titles st) (title_threshold eng) then st
         else \<lparr>deduped = deduped st @ [work],
               candidate_titles = candidate_titles st @ [t],
               seen_keys = (case d of
                              Some k' \<Rightarrow> if k' \<noteq> [] then insert k' (insert k (seen_keys st))
                                         else insert k (seen_keys st)
                            | None \<Rightarrow> insert k (seen_keys st))\<rparr>)"

definition filter_loop ::
  "(string \<Rightarrow> string \<Rightarrow> real) \<Rightarrow> dedupe_engine \<Rightarrow> 'x filter_state \<Rightarrow> 'x candidate_work list \<Rightarrow> 'x filter_state"
where
  "filter_loop tsr eng st cands = foldl (filter_step tsr eng) st cands"

definition dedupe_filter ::
  "(string \<Rightarrow> string \<Rightarrow> real) \<Rightarrow> dedupe_engine \<Rightarrow> 'x candidate_work list \<Rightarrow> 'x candidate_work list"
where
  "dedupe_filter tsr eng cands =
     deduped (filter_loop tsr eng \<lparr>deduped = [], candidate_titles = [], seen_keys = {}\<rparr> cands)"


text \<open>
  Forms of the loop used in the proofs: the test of one iteration against the titles and
  keys recorded so far, the keys that an accepted work records, and the loop as a
  recursion that returns the accepted works.
\<close>

definition rejected ::
  "(string \<Rightarrow> string \<Rightarrow> real) \<Rightarrow> dedupe_engine \<Rightarrow> string list \<Rightarrow> string set \<Rightarrow> 'x candidate_work \<Rightarrow> bool"
where
  "rejected tsr eng titles keys work \<longleftrightarrow>
     doi_in (work_doi work) (existing_doi eng)
     \<or> doi_in (work_doi work) keys
     \<or> normalize_identifier (identifier work) \<in> existing_ids eng
     \<or> normalize_identifier (identifier work) \<in> keys
     \<or> is_title_duplicate tsr eng (normalize_title (candidate_work.title work))
     \<or> is_title_in_list tsr (normalize_title (candidate_work.title work)) titles (title_threshold eng)"

definition work_keys :: "'x candidate_work \<Rightarrow> string set" where
  "work_keys work =
     insert (normalize_identifier (identifier work))
       (case work_doi work of Some k \<Rightarrow> if k \<noteq> [] then {k} else {} | None \<Rightarrow> {})"

definition batch_keys :: "'x candidate_work list \<Rightarrow> string set" where
  "batch_keys acc = (\<Union>a \<in> set acc. work_keys a)"

definition batch_titles :: "'x candidate_work list \<Rightarrow> string list" where
  "batch_titles acc = map (\<lambda>a. normalize_title (candidate_work.title a)) acc"

fun survivors ::
  "(string \<Rightarrow> string \<Rightarrow> real) \<Rightarrow> dedupe_engine \<Rightarrow> string list \<Rightarrow> string set \<Rightarrow> 'x candidate_work list \<Rightarrow> 'x candidate_work list"
where
  "survivors tsr eng titles keys [] = []"
| "survivors tsr eng titles keys (w # ws) =
     (if rejected tsr eng titles keys w then survivors tsr eng titles keys ws
      else w # survivors tsr eng (titles @ [normalize_title (candidate_work.title w)]) (work_keys w \<union> keys) ws)"

text \<open>
  The acceptance rule in the words of the specification, with one set of accepted DOIs
  and one set of accepted identifiers, to be compared with the loop of the source.
\<close>

definition accepted_dois :: "'x candidate_work list \<Rightarrow> string set" where
  "accepted_dois acc = (\<Union>a \<in> set acc. set_option (work_doi a))"

definition accepted_ids :: "'x candidate_work list \<Rightarrow> string set" where
  "accepted_ids acc = (\<lambda>a. normalize_identifier (identifier a)) ` set acc"

definition claimed_accept ::
  "(string \<Rightarrow> string \<Rightarrow> real) \<Rightarrow> dedupe_engine \<Rightarrow> 'x candidate_work list \<Rightarrow> 'x candidate_work \<Rightarrow> bool"
where
  "claimed_accept tsr eng acc work \<longleftrightarrow>
     (case work_doi work of
        None \<Rightarrow> True
      | Some k \<Rightarrow> k \<notin> existing_doi eng \<and> k \<notin> accepted_dois acc)
     \<and> normalize_identifier (identifier work) \<notin> existing_ids eng
     \<and> normalize_identifier (identifier work) \<notin> accepted_ids acc
     \<and> list_all (\<lambda>t. tsr (normalize_title (candidate_work.title work)) t / 100 < title_threshold eng)
          (existing_titles eng @ batch_titles acc)"


section \<open>The vectorizer (vectorizer.py)\<close>

text \<open>
  \<open>np.float32\<close> and Python's \<open>float\<close> are modelled by \<open>real\<close>: arithmetic is exact.
  \<open>SentenceTransformer.encode\<close> belongs to an external library and is a parameter
  \<open>embed_text\<close>, the embedding of one text; the matrix of embeddings is the list of its rows.
  \<open>load\<close> raises when the library is missing (\<open>st_available\<close> false). The callers
  never pass an empty list of texts.
\<close>

definition l2norm :: "real list \<Rightarrow> real" where
  "l2norm v = sqrt (sum_list (map (\<lambda>x. x * x) v))"

definition encode :: "bool \<Rightarrow> (string \<Rightarrow> real list) \<Rightarrow> string list \<Rightarrow> py_error + real list list" where
  "encode st_available embed_text texts =
     (if \<not> st_available
      then Inl (RuntimeError ''sentence-transformers is not installed. Install it or adjust requirements.'')
      else let embeddings = map embed_text texts;
               norms = map (\<lambda>row. l2norm row + 1 / 10 ^ 12) embeddings
           in Inr (map2 (\<lambda>row n. map (\<lambda>x. x / n) row) embeddings norms))"


section \<open>The similarity index (faiss\_store.py)\<close>

text \<open>
  An \<open>np.ndarray\<close> is its shape and its entries in row-major order. The flat
  inner-product index of faiss keeps its dimension, the number of stored vectors and
  the stored entries. The import of faiss may have failed (\<open>faiss_available\<close> false).
\<close>

record ndarray =
  shape :: "nat list"
  flat :: "real list"

definition ndim :: "ndarray \<Rightarrow> nat" where
  "ndim a = length (shape a)"

record faiss_index =
  d :: nat
  ntotal :: nat
  xb :: "real list"

definition IndexFlatIP :: "nat \<Rightarrow> faiss_index" where
  "IndexFlatIP n = \<lparr>d = n, ntotal = 0, xb = []\<rparr>"

definition index_add :: "faiss_index \<Rightarrow> ndarray \<Rightarrow> faiss_index" where
  "index_add idx vectors = idx\<lparr>ntotal := ntotal idx + shape vectors ! 0, xb := xb idx @ flat vectors\<rparr>"

record FaissIndex =
  dim :: nat
  index :: faiss_index

definition FaissIndex_init :: "bool \<Rightarrow> nat \<Rightarrow> faiss_index option \<Rightarrow> py_error + FaissIndex" where
  "FaissIndex_init faiss_available n idx =
     (if \<not> faiss_available
      then Inl (RuntimeError ''faiss is required; install faiss-cpu or adjust configuration.'')
      else Inr \<lparr>dim = n, index = (case idx of Some i \<Rightarrow> i | None \<Rightarrow> IndexFlatIP n)\<rparr>)"

text \<open>\<open>shape vectors ! 1\<close> and \<open>shape vectors ! 0\<close> are read only when the shape has two entries.\<close>

definition from_vectors :: "bool \<Rightarrow> ndarray \<Rightarrow> py_error + (FaissIndex \<times> nat list)" where
  "from_vectors faiss_available vectors =
     (if ndim vectors \<noteq> 2 then Inl (ValueError ''Vectors must be a 2D array'')
      else
        (case FaissIndex_init faiss_available (shape vectors ! 1) None of
           Inl e \<Rightarrow> Inl e
         | Inr instance \<Rightarrow>
             Inr (instance\<lparr>index := index_add (index instance) vectors\<rparr>,
                  [0 ..< shape vectors ! 0])))"

text \<open>\<open>load\<close>, applied to the index that \<open>faiss.read_index\<close> returns.\<close>

definition load :: "bool \<Rightarrow> faiss_index \<Rightarrow> py_error + FaissIndex" where
  "load faiss_available idx =
     (if \<not> faiss_available
      then Inl (RuntimeError ''faiss is required; install faiss-cpu or adjust configuration.'')
      else if ntotal idx = 0 then Inl (ValueError ''Loaded FAISS index is empty'')
      else FaissIndex_init faiss_available (d idx) (Some idx))"


section \<open>The profile builder (build\_profile.py)\<close>

fun join :: "string \<Rightarrow> string list \<Rightarrow> string" where
  "join sep [] = []"
| "join sep [x] = x"
| "join sep (x # y # ys) = x @ sep @ join sep (y # ys)"

definition item_content_for_embedding :: "zotero_item \<Rightarrow> string" where
  "item_content_for_embedding item =
     (let parts = [zotero_item.title item]
            @ (case zotero_item.abstract item of Some a \<Rightarrow> if a \<noteq> [] then [a] else [] | None \<Rightarrow> [])
            @ (if creators item \<noteq> [] then [join ''; '' (creators item)] else [])
            @ (if tags item \<noteq> [] then [join ''; '' (tags item)] else [])
      in join [CHR 0x0A] (filter (\<lambda>p. p \<noteq> []) parts))"

text \<open>The array that \<open>encode\<close> returns for a non-empty list of texts: one row per text.\<close>

definition as_array :: "real list list \<Rightarrow> ndarray" where
  "as_array rows =
     (case rows of
        [] \<Rightarrow> \<lparr>shape = [0], flat = []\<rparr>
      | r # _ \<Rightarrow> \<lparr>shape = [length rows, length r], flat = concat rows\<rparr>)"

text \<open>
  \<open>ProfileBuilder.run\<close> up to the built index; storing the embeddings, saving the index
  and writing the summary are effects on the storage and the file system.
\<close>

definition run :: "bool \<Rightarrow> bool \<Rightarrow> (string \<Rightarrow> real list) \<Rightarrow> zotero_item list \<Rightarrow> py_error + FaissIndex" where
  "run st_available faiss_available embed_text items =
     (if items = []
      then Inl (RuntimeError ''No items found in storage; run ingest before building profile.'')
      else
        (case encode st_available embed_text (map item_content_for_embedding items) of
           Inl e \<Rightarrow> Inl e
         | Inr vectors \<Rightarrow>
             (case from_vectors faiss_available (as_array vectors) of
                Inl e \<Rightarrow> Inl e
              | Inr (idx, order) \<Rightarrow> Inr idx)))"


section \<open>The ranker (score\_rank.py)\<close>

definition dict_get :: "('k \<rightharpoonup> 'v) \<Rightarrow> 'k \<Rightarrow> 'v \<Rightarrow> 'v" where
  "dict_get m k dflt = (case m k of Some v \<Rightarrow> v | None \<Rightarrow> dflt)"

text \<open>
  \<open>np.log1p\<close> on the reals. It agrees with numpy for arguments above \<open>-1\<close>; at \<open>-1\<close> and
  below numpy returns \<open>-inf\<close> and \<open>nan\<close>, which have no counterpart here.
\<close>

definition log1p :: "real \<Rightarrow> real" where
  "log1p x = ln (1 + x)"

definition content_for_embedding :: "'x candidate_work \<Rightarrow> string" where
  "content_for_embedding c =
     (let parts = [candidate_work.title c]
            @ (case candidate_work.abstract c of Some a \<Rightarrow> if a \<noteq> [] then [a] else [] | None \<Rightarrow> [])
            @ (if authors c \<noteq> [] then [join ''; '' (authors c)] else [])
      in join [CHR 0x0A] (filter (\<lambda>p. p \<noteq> []) parts))"

text \<open>\<open>_bonus\<close>: the loop returns at the first value found in the lower-cased whitelist.\<close>

definition bonus :: "string list \<Rightarrow> string list \<Rightarrow> real" where
  "bonus values whitelist =
     (let whitelist_lower = set (map lower whitelist)
      in if list_ex (\<lambda>v. v \<noteq> [] \<and> lower v \<in> whitelist_lower) values then 1 else 0)"

definition journal_quality_score :: "string option \<Rightarrow> (string \<rightharpoonup> real) \<Rightarrow> real \<times> real option" where
  "journal_quality_score v journal_metrics =
     (case v of
        None \<Rightarrow> (1, None)
      | Some name \<Rightarrow>
          if name = [] then (1, None)
          else (case journal_metrics (lower (strip name)) of
                  None \<Rightarrow> (1, None)
                | Some val \<Rightarrow>
                    (let s = log1p val in (if s < 1 then 1 else s, Some val))))"

text \<open>
  The instant of a \<open>datetime\<close> in microseconds of UTC; \<open>(now - published).days\<close> is the
  difference of the instants divided by the length of a day, rounded down.
\<close>

definition utc_us :: "datetime \<Rightarrow> int" where
  "utc_us t = wall_us t - (case tzinfo t of Some off \<Rightarrow> off | None \<Rightarrow> 0)"

definition us_per_day :: int where
  "us_per_day = 86400000000"

definition timedelta_days :: "int \<Rightarrow> datetime \<Rightarrow> int" where
  "timedelta_days now t = (now - utc_us t) div us_per_day"

text \<open>
  \<open>_compute_recency\<close>; \<open>now\<close> is the instant that \<open>datetime.now(timezone.utc)\<close> returns
  at this call.
\<close>

definition compute_recency :: "int \<Rightarrow> datetime option \<Rightarrow> settings \<Rightarrow> real" where
  "compute_recency now pub st =
     (case pub of
        None \<Rightarrow> 0
      | Some p0 \<Rightarrow>
          (let p = (if tzinfo p0 = None then p0\<lparr>tzinfo := Some 0\<rparr> else p0);
               delta_days = max (timedelta_days now p) 0;
               decay = decay_days (scoring st)
           in if delta_days \<le> dict_get decay ''fast'' 30 then 1
              else if delta_days \<le> dict_get decay ''medium'' 60 then 0.7
              else if delta_days \<le> dict_get decay ''slow'' 180 then 0.4
              else 0.1))"

definition compute_metric :: "'x candidate_work \<Rightarrow> real \<times> real" where
  "compute_metric c =
     (let cit = dict_get (metrics c) ''cited_by'' (dict_get (metrics c) ''is-referenced-by'' 0);
          alt = dict_get (metrics c) ''altmetric'' 0;
          citation_score = (if cit \<noteq> 0 then log1p cit else 0);
          altmetric_score = (if alt \<noteq> 0 then log1p alt else 0)
      in (citation_score, altmetric_score))"

text \<open>The label of a score, lines 104 to 108 of \<open>rank\<close>.\<close>

definition assign_label :: "thresholds \<Rightarrow> real \<Rightarrow> string" where
  "assign_label th s =
     (if s \<ge> must_read th then ''must_read''
      else if s \<ge> consider th then ''consider''
      else ''ignore'')"

text \<open>
  The body of the loop of \<open>rank\<close> for one candidate and its row \<open>distance\<close> of the
  search result. \<open>RankedWork(**candidate.dict(), score=..., ...)\<close> extends the record
  of the candidate by the scoring fields.
\<close>

definition rank_one ::
  "settings \<Rightarrow> (string \<rightharpoonup> real) \<Rightarrow> int \<Rightarrow> 'x candidate_work \<Rightarrow> real list \<Rightarrow> 'x ranked_work"
where
  "rank_one st journal_metrics now c distance =
     (let sim = (case distance of [] \<Rightarrow> 0 | x # _ \<Rightarrow> x);
          rec_score = compute_recency now (published c) st;
          (citation_score, altmetric_score) = compute_metric c;
          (jq, sjr) = journal_quality_score (venue c) journal_metrics;
          ab = bonus (authors c) (whitelist_authors (scoring st));
          vb = bonus (case venue c of Some v \<Rightarrow> if v \<noteq> [] then [v] else [] | None \<Rightarrow> [])
                 (whitelist_venues (scoring st));
          w = weights (scoring st);
          sc = sim * weights.similarity w
             + rec_score * weights.recency w
             + citation_score * weights.citations w
             + altmetric_score * weights.altmetric w
             + jq * (case weights.journal_quality w of Some q \<Rightarrow> q | None \<Rightarrow> 0)
             + ab * weights.author_bonus w
             + vb * weights.venue_bonus w;
          lab = assign_label (thresholds (scoring st)) sc
      in candidate_work.extend c
           (ranked_work.fields sc sim rec_score citation_score ab vb jq sjr lab))"

text \<open>
  The list \<open>ranked\<close> before it is sorted. \<open>search_top1\<close> is the row that the index returns
  for one query vector with \<open>top_k = 1\<close> (faiss is external), and \<open>nows i\<close> is the reading
  of the clock while the candidate at position \<open>i\<close> is scored: \<open>_compute_recency\<close>
  reads the clock anew at every call.
\<close>

definition ranked_works ::
  "(real list \<Rightarrow> real list) \<Rightarrow> settings \<Rightarrow> (string \<rightharpoonup> real) \<Rightarrow> (nat \<Rightarrow> int)
     \<Rightarrow> 'x candidate_work list \<Rightarrow> real list list \<Rightarrow> 'x ranked_work list"
where
  "ranked_works search_top1 st journal_metrics nows cands vectors =
     map (\<lambda>(i, c, v). rank_one st journal_metrics (nows i) c (search_top1 v))
       (zip [0 ..< length cands] (zip cands vectors))"

text \<open>\<open>list.sort(key=..., reverse=True)\<close>: descending by key, equal keys in their given order.\<close>

definition sort_reverse :: "('a \<Rightarrow> real) \<Rightarrow> 'a list \<Rightarrow> 'a list" where
  "sort_reverse k xs = sort_key (\<lambda>x. - k x) xs"

definition rank ::
  "bool \<Rightarrow> (string \<Rightarrow> real list) \<Rightarrow> (real list \<Rightarrow> real list) \<Rightarrow> settings \<Rightarrow> (string \<rightharpoonup> real)
     \<Rightarrow> (nat \<Rightarrow> int) \<Rightarrow> 'x candidate_work list \<Rightarrow> py_error + 'x ranked_work list"
where
  "rank st_available embed_text search_top1 st journal_metrics nows cands =
     (if cands = [] then Inr []
      else
        (case encode st_available embed_text (map content_for_embedding cands) of
           Inl e \<Rightarrow> Inl e
         | Inr vectors \<Rightarrow>
             Inr (sort_reverse score
                    (ranked_works search_top1 st journal_metrics nows cands vectors))))"


section \<open>Concrete inputs\<close>

text \<open>
  A stand-in for \<open>fuzz.token_set_ratio\<close> at the inputs evaluated below, where it agrees
  with the library: 100 for two equal non-empty titles, 0 for titles that share no
  character.
\<close>

definition exact_match_ratio :: "string \<Rightarrow> string \<Rightarrow> real" where
  "exact_match_ratio a b = (if a = b \<and> a \<noteq> [] then 100 else 0)"

definition plain_work :: "string \<Rightarrow> string \<Rightarrow> string option \<Rightarrow> unit candidate_work" where
  "plain_work ident ttl dopt =
     \<lparr>source = ''crossref'', identifier = ident, title = ttl, abstract = None, authors = [],
      doi = dopt, url = None, published = None, venue = None, metrics = Map.empty, extra = ()\<rparr>"

definition dated_work :: "string \<Rightarrow> int option \<Rightarrow> (string \<rightharpoonup> real) \<Rightarrow> unit candidate_work" where
  "dated_work ident pub ms =
     \<lparr>source = ''arxiv'', identifier = ident, title = ident, abstract = None, authors = [],
      doi = None, url = None,
      published = map_option (\<lambda>t. \<lparr>wall_us = t, tzinfo = None\<rparr>) pub,
      venue = None, metrics = ms, extra = ()\<rparr>"

definition recency_only :: settings where
  "recency_only =
     \<lparr>scoring =
        \<lparr>weights = \<lparr>weights.similarity = 0, recency = 1, citations = 0, altmetric = 0,
                     weights.journal_quality = None, weights.author_bonus = 0,
                     weights.venue_bonus = 0\<rparr>,
         thresholds = \<lparr>must_read = 0.8, consider = 0.5\<rparr>,
         decay_days = Map.empty,
         whitelist_authors = [],
         whitelist_venues = []\<rparr>\<rparr>"

definition label_level :: "string \<Rightarrow> nat" where
  "label_level l = (if l = ''must_read'' then 2 else if l = ''consider'' then 1 else 0)"


text \<open>
  Forms used in the proofs about the ranker: a row as \<open>encode\<close> returns it, and the
  result for one candidate when the clock reads \<open>now\<close>. \<open>tick_clock\<close> is a clock that
  passes the end of a day between the first and the second candidate.
\<close>

definition unit_row :: "real list \<Rightarrow> real list" where
  "unit_row row = map (\<lambda>x. x / (l2norm row + 1 / 10 ^ 12)) row"

definition rank_at :: "(string \<Rightarrow> real list) \<Rightarrow> (real list \<Rightarrow> real list) \<Rightarrow> settings \<Rightarrow> (string \<rightharpoonup> real) \<Rightarrow> int \<Rightarrow> 'x candidate_work \<Rightarrow> 'x ranked_work" where
  "rank_at e srch st jm now c = rank_one st jm now c (srch (unit_row (e (content_for_embedding c))))"

definition tick_clock :: "nat \<Rightarrow> int" where
  "tick_clock i = (if i = 0 then 31 * us_per_day - 1 else 31 * us_per_day)"


section \<open>Properties of the dedupe engine\<close>

lemma norm_examples:
  "normalize_identifier ''10.1000/abc'' = ''10.1000/abc''"
  "normalize_identifier ''arxiv:1'' = ''arxiv:1''"
  "normalize_identifier '' '' = []"
  "normalize_identifier [] = []"
  "normalize_identifier ''b'' = ''b''"
  "normalize_title ''aaa'' = ''aaa''"
  "normalize_title ''bbb'' = ''bbb''"
  by code_simp+

lemma filter_step_rejected:
  "rejected tsr eng (candidate_titles st) (seen_keys st) w \<Longrightarrow> filter_step tsr eng st w = st"
  by (auto simp: filter_step_def rejected_def Let_def)

lemma filter_step_accepted:
  "\<not> rejected tsr eng (candidate_titles st) (seen_keys st) w \<Longrightarrow>
   filter_step tsr eng st w =
     \<lparr>deduped = deduped st @ [w],
      candidate_titles = candidate_titles st @ [normalize_title (candidate_work.title w)],
      seen_keys = work_keys w \<union> seen_keys st\<rparr>"
  by (auto simp: filter_step_def rejected_def Let_def work_keys_def split: option.splits)

text \<open>The loop returns the survivors and records exactly their titles and keys.\<close>

lemma filter_loop_survivors:
  "filter_loop tsr eng st cs =
     \<lparr>deduped = deduped st @ survivors tsr eng (candidate_titles st) (seen_keys st) cs,
      candidate_titles = candidate_titles st
         @ batch_titles (survivors tsr eng (candidate_titles st) (seen_keys st) cs),
      seen_keys = batch_keys (survivors tsr eng (candidate_titles st) (seen_keys st) cs) \<union> seen_keys st\<rparr>"
proof (induction cs arbitrary: st)
  case Nil
  show ?case by (simp add: filter_loop_def batch_titles_def batch_keys_def)
next
  case (Cons w ws)
  show ?case
  proof (cases "rejected tsr eng (candidate_titles st) (seen_keys st) w")
    case True
    then show ?thesis
      using Cons.IH [of st] by (simp add: filter_loop_def filter_step_rejected)
  next
    case False
    then show ?thesis
      using Cons.IH [of "filter_step tsr eng st w"]
      by (simp add: filter_loop_def filter_step_accepted batch_titles_def batch_keys_def Un_ac)
  qed
qed

lemma dedupe_filter_survivors: "dedupe_filter tsr eng cs = survivors tsr eng [] {} cs"
  by (simp add: dedupe_filter_def filter_loop_survivors)

lemma survivors_append:
  "survivors tsr eng titles keys (xs @ ys) =
     survivors tsr eng titles keys xs
     @ survivors tsr eng (titles @ batch_titles (survivors tsr eng titles keys xs))
         (batch_keys (survivors tsr eng titles keys xs) \<union> keys) ys"
  by (induction xs arbitrary: titles keys) (simp_all add: batch_titles_def batch_keys_def Un_ac)

lemma survivors_idem:
  "survivors tsr eng titles keys (survivors tsr eng titles keys cs) = survivors tsr eng titles keys cs"
  by (induction cs arbitrary: titles keys) auto

lemma survivors_subseq: "subseq (survivors tsr eng titles keys cs) cs"
  by (induction cs arbitrary: titles keys) auto

lemma is_title_in_list_iff:
  "is_title_in_list tsr t ts th \<longleftrightarrow> (\<exists>e \<in> set ts. e \<noteq> [] \<and> th \<le> tsr t e / 100)"
  by (induction ts) auto

lemma dedupe_filter_snoc:
  "dedupe_filter tsr eng (pre @ [w]) =
     (if rejected tsr eng (batch_titles (dedupe_filter tsr eng pre)) (batch_keys (dedupe_filter tsr eng pre)) w
      then dedupe_filter tsr eng pre else dedupe_filter tsr eng pre @ [w])"
  by (simp add: dedupe_filter_survivors survivors_append)

lemma dedupe_filter_prefix: "prefix (dedupe_filter tsr eng pre) (dedupe_filter tsr eng (pre @ rest))"
  by (simp add: dedupe_filter_survivors survivors_append)

lemma dedupe_empty_engine:
  "DedupeEngine [] th = \<lparr>title_threshold = th, existing_doi = {}, existing_ids = {}, existing_titles = []\<rparr>"
  by (simp add: DedupeEngine_def)

lemmas dedupe_eval =
  dedupe_filter_survivors rejected_def dedupe_empty_engine plain_work_def work_doi_def doi_in_def
  is_title_duplicate_def norm_examples exact_match_ratio_def work_keys_def

text \<open>
  Claim C8. Filtering is idempotent for a fixed engine: filtering the result of
  \<open>filter\<close> again, with the same known items and threshold, returns it unchanged.
\<close>

theorem dedupe_filter_idempotent:
  "dedupe_filter tsr eng (dedupe_filter tsr eng cs) = dedupe_filter tsr eng cs"
  by (simp add: dedupe_filter_survivors survivors_idem)

text \<open>
  Claim C2, as stated, at a concrete batch. The first work has the identifier
  \<open>10.1000/abc\<close> and no DOI; the second has the identifier \<open>arxiv:1\<close> and the DOI
  \<open>10.1000/abc\<close>. No DOI and no identifier is known, the titles share no character.
  The stated rule accepts the second work (its DOI equals no accepted DOI, its
  identifier no accepted identifier), the loop rejects it.
\<close>

theorem dedupe_filter_claimed_rule_counterexample:
  "claimed_accept exact_match_ratio (DedupeEngine [] 0.9)
     (dedupe_filter exact_match_ratio (DedupeEngine [] 0.9) [plain_work ''10.1000/abc'' ''aaa'' None])
     (plain_work ''arxiv:1'' ''bbb'' (Some ''10.1000/abc''))
   \<and> dedupe_filter exact_match_ratio (DedupeEngine [] 0.9)
       [plain_work ''10.1000/abc'' ''aaa'' None, plain_work ''arxiv:1'' ''bbb'' (Some ''10.1000/abc'')]
     = [plain_work ''10.1000/abc'' ''aaa'' None]"
  by (simp add: dedupe_eval claimed_accept_def accepted_dois_def accepted_ids_def batch_titles_def)

text \<open>
  Claim C2, amended. The result of \<open>filter\<close> is a subsequence of the batch, and what was
  accepted from a prefix of the batch stays a prefix of the result. The work \<open>w\<close> that
  follows the prefix \<open>pre\<close> is accepted if and only if
  its normalized DOI, when it is not empty, is neither a known DOI nor among the keys
  (normalized identifiers and non-empty normalized DOIs alike) of the works accepted
  from \<open>pre\<close>; its normalized identifier is neither a known identifier nor among those
  keys; and its normalized title scores strictly below the threshold against every
  non-empty known title and every non-empty title accepted from \<open>pre\<close>.
\<close>

theorem dedupe_filter_accepts_iff:
  "subseq (dedupe_filter tsr eng cs) cs
   \<and> prefix (dedupe_filter tsr eng pre) (dedupe_filter tsr eng (pre @ w # rest))
   \<and> (dedupe_filter tsr eng (pre @ [w]) = dedupe_filter tsr eng pre @ [w]
      \<or> dedupe_filter tsr eng (pre @ [w]) = dedupe_filter tsr eng pre)
   \<and> (dedupe_filter tsr eng (pre @ [w]) = dedupe_filter tsr eng pre @ [w] \<longleftrightarrow>
        (\<forall>k. work_doi w = Some k \<and> k \<noteq> [] \<longrightarrow>
               k \<notin> existing_doi eng \<and> k \<notin> batch_keys (dedupe_filter tsr eng pre))
        \<and> normalize_identifier (identifier w) \<notin> existing_ids eng
        \<and> normalize_identifier (identifier w) \<notin> batch_keys (dedupe_filter tsr eng pre)
        \<and> (\<forall>t \<in> set (existing_titles eng @ batch_titles (dedupe_filter tsr eng pre)).
              t \<noteq> [] \<longrightarrow>
              tsr (normalize_title (candidate_work.title w)) t / 100 < title_threshold eng))"
proof (intro conjI)
  show "subseq (dedupe_filter tsr eng cs) cs"
    by (simp add: dedupe_filter_survivors survivors_subseq)
  show "prefix (dedupe_filter tsr eng pre) (dedupe_filter tsr eng (pre @ w # rest))"
    by (rule dedupe_filter_prefix)
  show "dedupe_filter tsr eng (pre @ [w]) = dedupe_filter tsr eng pre @ [w]
      \<or> dedupe_filter tsr eng (pre @ [w]) = dedupe_filter tsr eng pre"
    by (simp add: dedupe_filter_snoc)
  show "dedupe_filter tsr eng (pre @ [w]) = dedupe_filter tsr eng pre @ [w] \<longleftrightarrow>
        (\<forall>k. work_doi w = Some k \<and> k \<noteq> [] \<longrightarrow>
               k \<notin> existing_doi eng \<and> k \<notin> batch_keys (dedupe_filter tsr eng pre))
        \<and> normalize_identifier (identifier w) \<notin> existing_ids eng
        \<and> normalize_identifier (identifier w) \<notin> batch_keys (dedupe_filter tsr eng pre)
        \<and> (\<forall>t \<in> set (existing_titles eng @ batch_titles (dedupe_filter tsr eng pre)).
              t \<noteq> [] \<longrightarrow>
              tsr (normalize_title (candidate_work.title w)) t / 100 < title_threshold eng)"
    unfolding dedupe_filter_snoc
    by (auto simp: rejected_def doi_in_def is_title_duplicate_def is_title_in_list_iff not_le
        split: option.splits)
qed

text \<open>
  The amended rule at the batch of the counterexample: the DOI of the second work is
  among the keys of the first, so the second work is not accepted.
\<close>

theorem dedupe_filter_accepts_iff_witness:
  "dedupe_filter exact_match_ratio (DedupeEngine [] 0.9)
       ([plain_work ''10.1000/abc'' ''aaa'' None] @ [plain_work ''arxiv:1'' ''bbb'' (Some ''10.1000/abc'')])
     \<noteq> dedupe_filter exact_match_ratio (DedupeEngine [] 0.9) [plain_work ''10.1000/abc'' ''aaa'' None]
         @ [plain_work ''arxiv:1'' ''bbb'' (Some ''10.1000/abc'')]
   \<and> ''10.1000/abc'' \<in> batch_keys
       (dedupe_filter exact_match_ratio (DedupeEngine [] 0.9) [plain_work ''10.1000/abc'' ''aaa'' None])"
proof -
  have k: "''10.1000/abc'' \<in> batch_keys
       (dedupe_filter exact_match_ratio (DedupeEngine [] 0.9) [plain_work ''10.1000/abc'' ''aaa'' None])"
    by (simp add: dedupe_eval batch_keys_def)
  have d: "work_doi (plain_work ''arxiv:1'' ''bbb'' (Some ''10.1000/abc'')) = Some ''10.1000/abc''"
    by (simp add: dedupe_eval)
  show ?thesis
    using k d
      dedupe_filter_accepts_iff [of exact_match_ratio "DedupeEngine [] 0.9" "[]"
        "[plain_work ''10.1000/abc'' ''aaa'' None]"
        "plain_work ''arxiv:1'' ''bbb'' (Some ''10.1000/abc'')" "[]"]
    by blast
qed

text \<open>
  Claim C10, as stated, at a concrete batch. The first work has the empty identifier
  and is accepted; the second has a DOI that consists of one blank, so that its
  normalized DOI is empty and equals the normalized identifier of the first. The
  second work is accepted all the same: the loop tests a DOI only when its normalized
  form is not empty.
\<close>

theorem shared_seen_keys_counterexample:
  "work_doi (plain_work ''b'' ''bbb'' (Some '' ''))
     = Some (normalize_identifier (identifier (plain_work [] ''aaa'' None)))
   \<and> dedupe_filter exact_match_ratio (DedupeEngine [] 0.9) [plain_work [] ''aaa'' None]
       = [plain_work [] ''aaa'' None]
   \<and> dedupe_filter exact_match_ratio (DedupeEngine [] 0.9)
       [plain_work [] ''aaa'' None, plain_work ''b'' ''bbb'' (Some '' '')]
     = [plain_work [] ''aaa'' None, plain_work ''b'' ''bbb'' (Some '' '')]"
  by (simp add: dedupe_eval)

text \<open>
  Claim C10, amended. Within one call of \<open>filter\<close> the identifiers and DOIs of accepted
  works are recorded in one set of keys. Let the work \<open>c\<close> be accepted after the prefix
  \<open>pre\<close> and let \<open>w\<close> come later in the batch. If the normalized DOI of \<open>w\<close> equals the
  normalized identifier of \<open>c\<close>, or the normalized identifier of \<open>w\<close> equals the
  normalized DOI of \<open>c\<close>, and this common key is not empty, then \<open>w\<close> is rejected.
\<close>

theorem shared_seen_keys_reject:
  assumes "dedupe_filter tsr eng (pre @ [c]) = dedupe_filter tsr eng pre @ [c]"
    and "k \<noteq> []"
    and "(work_doi w = Some k \<and> normalize_identifier (identifier c) = k)
         \<or> (normalize_identifier (identifier w) = k \<and> work_doi c = Some k)"
  shows "dedupe_filter tsr eng (pre @ c # mid @ [w]) = dedupe_filter tsr eng (pre @ c # mid)"
proof -
  have "prefix (dedupe_filter tsr eng (pre @ [c])) (dedupe_filter tsr eng ((pre @ [c]) @ mid))"
    by (rule dedupe_filter_prefix)
  with assms(1) have "c \<in> set (dedupe_filter tsr eng (pre @ c # mid))"
    by (auto simp: prefix_def)
  moreover have "k \<in> work_keys c"
    using assms(2,3) by (auto simp: work_keys_def)
  ultimately have "k \<in> batch_keys (dedupe_filter tsr eng (pre @ c # mid))"
    by (auto simp: batch_keys_def)
  then have "rejected tsr eng (batch_titles (dedupe_filter tsr eng (pre @ c # mid)))
               (batch_keys (dedupe_filter tsr eng (pre @ c # mid))) w"
    using assms(2,3) by (auto simp: rejected_def doi_in_def)
  then show ?thesis
    using dedupe_filter_snoc [of tsr eng "pre @ c # mid" w] by simp
qed

text \<open>
  The amended claim at a concrete batch: the DOI of the second work is the identifier
  of the first, which was accepted.
\<close>

theorem shared_seen_keys_reject_witness:
  "dedupe_filter exact_match_ratio (DedupeEngine [] 0.9) ([] @ [plain_work ''10.1000/abc'' ''aaa'' None])
     = dedupe_filter exact_match_ratio (DedupeEngine [] 0.9) [] @ [plain_work ''10.1000/abc'' ''aaa'' None]
   \<and> ''10.1000/abc'' \<noteq> []
   \<and> work_doi (plain_work ''arxiv:1'' ''bbb'' (Some ''10.1000/abc'')) = Some ''10.1000/abc''
   \<and> normalize_identifier (identifier (plain_work ''10.1000/abc'' ''aaa'' None)) = ''10.1000/abc''
   \<and> dedupe_filter exact_match_ratio (DedupeEngine [] 0.9)
       ([] @ plain_work ''10.1000/abc'' ''aaa'' None # []
          @ [plain_work ''arxiv:1'' ''bbb'' (Some ''10.1000/abc'')])
     = dedupe_filter exact_match_ratio (DedupeEngine [] 0.9)
         ([] @ plain_work ''10.1000/abc'' ''aaa'' None # [])"
proof -
  have a: "dedupe_filter exact_match_ratio (DedupeEngine [] 0.9) ([] @ [plain_work ''10.1000/abc'' ''aaa'' None])
     = dedupe_filter exact_match_ratio (DedupeEngine [] 0.9) [] @ [plain_work ''10.1000/abc'' ''aaa'' None]"
    by (simp add: dedupe_eval)
  have b: "''10.1000/abc'' \<noteq> []"
    by simp
  have c: "work_doi (plain_work ''arxiv:1'' ''bbb'' (Some ''10.1000/abc'')) = Some ''10.1000/abc''"
    by (simp add: dedupe_eval)
  have d: "normalize_identifier (identifier (plain_work ''10.1000/abc'' ''aaa'' None)) = ''10.1000/abc''"
    by (simp add: dedupe_eval)
  from c d have e: "(work_doi (plain_work ''arxiv:1'' ''bbb'' (Some ''10.1000/abc'')) = Some ''10.1000/abc''
        \<and> normalize_identifier (identifier (plain_work ''10.1000/abc'' ''aaa'' None)) = ''10.1000/abc'')
      \<or> (normalize_identifier (identifier (plain_work ''arxiv:1'' ''bbb'' (Some ''10.1000/abc''))) = ''10.1000/abc''
        \<and> work_doi (plain_work ''10.1000/abc'' ''aaa'' None) = Some ''10.1000/abc'')"
    by blast
  show ?thesis
    using a b c d shared_seen_keys_reject [OF a b e, of "[]"] by blast
qed


section \<open>Properties of the ranker\<close>

lemma encode_available:
  "encode True e texts = Inr (map (\<lambda>t. map (\<lambda>x. x / (l2norm (e t) + 1 / 10 ^ 12)) (e t)) texts)"
proof -
  have "map2 (\<lambda>row n. map (\<lambda>x. x / n) row) (map e texts)
          (map (\<lambda>row. l2norm row + 1 / 10 ^ 12) (map e texts))
        = map (\<lambda>t. map (\<lambda>x. x / (l2norm (e t) + 1 / 10 ^ 12)) (e t)) texts"
    by (induction texts) simp_all
  then show ?thesis
    by (simp add: encode_def Let_def)
qed

lemma encode_unavailable: "isl (encode False e texts)"
  by (simp add: encode_def)

lemma encode_length: "encode a e texts = Inr vs \<Longrightarrow> length vs = length texts"
  by (auto simp: encode_def Let_def split: if_splits)

lemma truncate_rank_one: "candidate_work.truncate (rank_one st jm now c dv) = c"
  by (simp add: rank_one_def Let_def split_beta candidate_work.defs ranked_work.defs)

lemma length_ranked_works:
  "length vs = length cs \<Longrightarrow> length (ranked_works srch st jm nows cs vs) = length cs"
  by (simp add: ranked_works_def)

lemma nth_ranked_works:
  "length vs = length cs \<Longrightarrow> i < length cs \<Longrightarrow>
   ranked_works srch st jm nows cs vs ! i = rank_one st jm (nows i) (cs ! i) (srch (vs ! i))"
  by (simp add: ranked_works_def)

lemma map_truncate_ranked_works:
  assumes "length vs = length cs"
  shows "map candidate_work.truncate (ranked_works srch st jm nows cs vs) = cs"
proof (rule nth_equalityI)
  show "length (map candidate_work.truncate (ranked_works srch st jm nows cs vs)) = length cs"
    using assms by (simp add: length_ranked_works)
next
  fix i
  assume "i < length (map candidate_work.truncate (ranked_works srch st jm nows cs vs))"
  then have "i < length cs"
    using assms by (simp add: length_ranked_works)
  then show "map candidate_work.truncate (ranked_works srch st jm nows cs vs) ! i = cs ! i"
    using assms by (simp add: length_ranked_works nth_ranked_works truncate_rank_one)
qed

lemma ranked_works_const_clock:
  assumes "length vs = length cs"
  shows "ranked_works srch st jm (\<lambda>_. now) cs vs
         = map (\<lambda>(c, v). rank_one st jm now c (srch v)) (zip cs vs)"
proof (rule nth_equalityI)
  show "length (ranked_works srch st jm (\<lambda>_. now) cs vs)
        = length (map (\<lambda>(c, v). rank_one st jm now c (srch v)) (zip cs vs))"
    using assms by (simp add: length_ranked_works)
next
  fix i
  assume "i < length (ranked_works srch st jm (\<lambda>_. now) cs vs)"
  then have "i < length cs"
    using assms by (simp add: length_ranked_works)
  then show "ranked_works srch st jm (\<lambda>_. now) cs vs ! i
             = map (\<lambda>(c, v). rank_one st jm now c (srch v)) (zip cs vs) ! i"
    using assms by (simp add: nth_ranked_works)
qed

lemma rank_available:
  "cs \<noteq> [] \<Longrightarrow>
   rank True e srch st jm nows cs =
     Inr (sort_reverse score
            (ranked_works srch st jm nows cs
               (map (\<lambda>t. map (\<lambda>x. x / (l2norm (e t) + 1 / 10 ^ 12)) (e t))
                  (map content_for_embedding cs))))"
  by (simp add: rank_def encode_available)

lemma rank_Inr:
  assumes "rank a e srch st jm nows cs = Inr out"
  shows "\<exists>vs. length vs = length cs \<and> out = sort_reverse score (ranked_works srch st jm nows cs vs)"
proof (cases "cs = []")
  case True
  with assms show ?thesis
    by (auto simp: rank_def sort_reverse_def ranked_works_def)
next
  case False
  with assms obtain vs where "encode a e (map content_for_embedding cs) = Inr vs"
    and "out = sort_reverse score (ranked_works srch st jm nows cs vs)"
    by (auto simp: rank_def split: sum.splits)
  then show ?thesis
    using encode_length by fastforce
qed

text \<open>
  Claim C9. When \<open>rank\<close> returns, cutting the scoring fields off its results gives back
  exactly the candidates it was called with, each once: every \<open>RankedWork\<close> carries the
  fields \<open>source\<close>, \<open>identifier\<close>, \<open>title\<close>, \<open>abstract\<close>, \<open>authors\<close>, \<open>doi\<close>, \<open>url\<close>,
  \<open>published\<close>, \<open>venue\<close>, \<open>metrics\<close> and \<open>extra\<close> of its candidate unchanged, and the
  scoring fields are the only additions.
\<close>

theorem rank_keeps_candidate_fields:
  assumes "rank a e srch st jm nows cs = Inr out"
  shows "mset (map candidate_work.truncate out) = mset cs"
proof -
  from rank_Inr [OF assms] obtain vs where l: "length vs = length cs"
    and o: "out = sort_reverse score (ranked_works srch st jm nows cs vs)"
    by blast
  have "mset (map candidate_work.truncate out)
        = mset (map candidate_work.truncate (ranked_works srch st jm nows cs vs))"
    unfolding o sort_reverse_def by simp
  then show ?thesis
    by (simp add: map_truncate_ranked_works [OF l])
qed

lemma set_ranked_works:
  "w \<in> set (ranked_works srch st jm nows cs vs) \<Longrightarrow> \<exists>now c dv. w = rank_one st jm now c dv"
  by (auto simp: ranked_works_def)

lemma label_rank_one:
  "label (rank_one st jm now c dv) = assign_label (thresholds (scoring st)) (score (rank_one st jm now c dv))"
  by (simp add: rank_one_def Let_def split_beta candidate_work.defs ranked_work.defs)

lemma rank_label:
  assumes "rank a e srch st jm nows cs = Inr out" and "w \<in> set out"
  shows "label w = assign_label (thresholds (scoring st)) (score w)"
proof -
  from rank_Inr [OF assms(1)] obtain vs where
    "out = sort_reverse score (ranked_works srch st jm nows cs vs)"
    by blast
  with assms(2) have "w \<in> set (ranked_works srch st jm nows cs vs)"
    by (simp add: sort_reverse_def)
  then show ?thesis
    using set_ranked_works label_rank_one by metis
qed

lemma label_level_assign:
  "label_level (assign_label th s) = (if must_read th \<le> s then 2 else if consider th \<le> s then 1 else 0)"
  by (simp add: label_level_def assign_label_def)

text \<open>
  Claim C4. The label of every result of \<open>rank\<close> is a function of its score and the two
  thresholds: \<open>must_read\<close> from the must-read threshold upwards, else \<open>consider\<close> from
  the consider threshold upwards, else \<open>ignore\<close>. With the must-read threshold at or
  above the consider threshold these are three ordered bands, and a higher score never
  has a lower label. With the thresholds 0.8 and 0.5 the score 0.81 is \<open>must_read\<close>,
  0.5 is \<open>consider\<close> and 0.49999 is \<open>ignore\<close>.
\<close>

theorem rank_label_bands:
  assumes "rank a e srch st jm nows cs = Inr out"
    and "w \<in> set out"
    and "consider (thresholds (scoring st)) \<le> must_read (thresholds (scoring st))"
  shows "label w = (if score w \<ge> must_read (thresholds (scoring st)) then ''must_read''
                    else if score w \<ge> consider (thresholds (scoring st)) then ''consider''
                    else ''ignore'')
       \<and> (label w = ''must_read'' \<longleftrightarrow> must_read (thresholds (scoring st)) \<le> score w)
       \<and> (label w = ''consider'' \<longleftrightarrow>
            consider (thresholds (scoring st)) \<le> score w \<and> score w < must_read (thresholds (scoring st)))
       \<and> (label w = ''ignore'' \<longleftrightarrow> score w < consider (thresholds (scoring st)))
       \<and> (\<forall>w' \<in> set out. score w \<le> score w' \<longrightarrow> label_level (label w) \<le> label_level (label w'))
       \<and> assign_label \<lparr>must_read = 0.8, consider = 0.5\<rparr> 0.81 = ''must_read''
       \<and> assign_label \<lparr>must_read = 0.8, consider = 0.5\<rparr> 0.5 = ''consider''
       \<and> assign_label \<lparr>must_read = 0.8, consider = 0.5\<rparr> 0.49999 = ''ignore''"
proof -
  have l: "label w = assign_label (thresholds (scoring st)) (score w)"
    by (rule rank_label [OF assms(1,2)])
  have m: "\<forall>w' \<in> set out. score w \<le> score w' \<longrightarrow> label_level (label w) \<le> label_level (label w')"
  proof (intro ballI impI)
    fix w' assume "w' \<in> set out" and le: "score w \<le> score w'"
    then have "label w' = assign_label (thresholds (scoring st)) (score w')"
      using rank_label [OF assms(1)] by blast
    with l le show "label_level (label w) \<le> label_level (label w')"
      by (simp add: label_level_assign)
  qed
  show ?thesis
    using l m assms(3) by (auto simp: assign_label_def)
qed

lemma encode_Inr:
  "encode a e texts = Inr vs \<Longrightarrow> vs = map (\<lambda>t. unit_row (e t)) texts"
proof -
  assume h: "encode a e texts = Inr vs"
  then have "a" by (auto simp: encode_def split: if_splits)
  with h show ?thesis
    by (simp add: encode_available unit_row_def)
qed

lemma ranked_works_rank_at:
  "ranked_works srch st jm (\<lambda>_. now) cs (map (\<lambda>t. unit_row (e t)) (map content_for_embedding cs))
   = map (rank_at e srch st jm now) cs"
  by (simp add: ranked_works_const_clock rank_at_def zip_map2 o_def zip_same_conv_map)

lemma rank_const_clock:
  assumes "rank a e srch st jm (\<lambda>_. now) cs = Inr out"
  shows "out = sort_reverse score (map (rank_at e srch st jm now) cs)"
proof (cases "cs = []")
  case True
  with assms show ?thesis by (simp add: rank_def sort_reverse_def)
next
  case False
  with assms obtain vs where v: "encode a e (map content_for_embedding cs) = Inr vs"
    and o: "out = sort_reverse score (ranked_works srch st jm (\<lambda>_. now) cs vs)"
    by (auto simp: rank_def split: sum.splits)
  show ?thesis
    unfolding o encode_Inr [OF v] ranked_works_rank_at ..
qed

lemma sorted_sort_reverse: "sorted_wrt (\<lambda>x y. x \<ge> y) (map k (sort_reverse k xs))"
proof -
  have "sorted (map (\<lambda>x. - k x) (sort_reverse k xs))"
    unfolding sort_reverse_def by (rule sorted_sort_key)
  then show ?thesis
    by (simp add: sorted_wrt_map)
qed

lemma stable_sort_reverse:
  "filter (\<lambda>x. k x = v) (sort_reverse k xs) = filter (\<lambda>x. k x = v) xs"
  using sort_key_stable [of "\<lambda>x. - k x" "- v" xs]
  by (simp add: sort_reverse_def)

text \<open>
  Claim C3, amended. The result of \<open>rank\<close> is sorted by descending score, and the sort
  is stable: the results of equal score stand in the order in which their candidates
  were scored, which is the order of the input. If the clock shows the same instant
  \<open>now\<close> whenever it is read, two inputs that are permutations of each other give the
  same multiset of scores.
\<close>

theorem rank_sorted_stable:
  assumes "rank a e srch st jm nows cs = Inr out"
  shows "sorted_wrt (\<lambda>x y. x \<ge> y) (map score out)
       \<and> (\<exists>vs. length vs = length cs
             \<and> mset out = mset (ranked_works srch st jm nows cs vs)
             \<and> (\<forall>k. filter (\<lambda>w. score w = k) out
                    = filter (\<lambda>w. score w = k) (ranked_works srch st jm nows cs vs)))
       \<and> (\<forall>k. subseq (map candidate_work.truncate (filter (\<lambda>w. score w = k) out)) cs)
       \<and> ((\<forall>i. nows i = now) \<and> rank a e srch st jm nows cs' = Inr out' \<and> mset cs' = mset cs
            \<longrightarrow> mset (map score out') = mset (map score out))"
proof (intro conjI)
  from rank_Inr [OF assms] obtain vs where l: "length vs = length cs"
    and o: "out = sort_reverse score (ranked_works srch st jm nows cs vs)"
    by blast
  show "sorted_wrt (\<lambda>x y. x \<ge> y) (map score out)"
    unfolding o by (rule sorted_sort_reverse)
  have st: "\<forall>k. filter (\<lambda>w. score w = k) out
                = filter (\<lambda>w. score w = k) (ranked_works srch st jm nows cs vs)"
    unfolding o by (simp add: stable_sort_reverse)
  have ms: "mset out = mset (ranked_works srch st jm nows cs vs)"
    unfolding o sort_reverse_def by simp
  from l ms st show "\<exists>vs. length vs = length cs
             \<and> mset out = mset (ranked_works srch st jm nows cs vs)
             \<and> (\<forall>k. filter (\<lambda>w. score w = k) out
                    = filter (\<lambda>w. score w = k) (ranked_works srch st jm nows cs vs))"
    by blast
  show "\<forall>k. subseq (map candidate_work.truncate (filter (\<lambda>w. score w = k) out)) cs"
  proof
    fix k
    have "subseq (map candidate_work.truncate (filter (\<lambda>w. score w = k) (ranked_works srch st jm nows cs vs)))
            (map candidate_work.truncate (ranked_works srch st jm nows cs vs))"
      by (intro subseq_map subseq_filter_left)
    then show "subseq (map candidate_work.truncate (filter (\<lambda>w. score w = k) out)) cs"
      using st by (simp add: map_truncate_ranked_works [OF l])
  qed
  show "(\<forall>i. nows i = now) \<and> rank a e srch st jm nows cs' = Inr out' \<and> mset cs' = mset cs
            \<longrightarrow> mset (map score out') = mset (map score out)"
  proof
    assume h: "(\<forall>i. nows i = now) \<and> rank a e srch st jm nows cs' = Inr out' \<and> mset cs' = mset cs"
    then have c: "nows = (\<lambda>_. now)" by auto
    from h assms have "out' = sort_reverse score (map (rank_at e srch st jm now) cs')"
      and "out = sort_reverse score (map (rank_at e srch st jm now) cs)"
      unfolding c by (auto dest: rank_const_clock)
    then have "mset out' = image_mset (rank_at e srch st jm now) (mset cs')"
      and "mset out = image_mset (rank_at e srch st jm now) (mset cs)"
      by (simp_all add: sort_reverse_def)
    with h have "mset out' = mset out" by simp
    then show "mset (map score out') = mset (map score out)"
      by (metis mset_map)
  qed
qed

lemma score_recency_only:
  "score (rank_one recency_only Map.empty now (dated_work i pub Map.empty) dv)
     = compute_recency now (map_option (\<lambda>t. \<lparr>wall_us = t, tzinfo = None\<rparr>) pub) recency_only"
  by (simp add: rank_one_def Let_def split_beta candidate_work.defs ranked_work.defs
      recency_only_def dated_work_def compute_metric_def dict_get_def journal_quality_score_def
      bonus_def)

lemma recency_examples:
  "compute_recency (31 * us_per_day - 1) (Some \<lparr>wall_us = 0, tzinfo = None\<rparr>) recency_only = 1"
  "compute_recency (31 * us_per_day) (Some \<lparr>wall_us = 0, tzinfo = None\<rparr>) recency_only = 0.7"
  "compute_recency now None recency_only = 0"
  by (simp_all add: compute_recency_def Let_def timedelta_days_def utc_us_def us_per_day_def
      recency_only_def dict_get_def)

lemma rank_two:
  "rank True e srch st jm nows [c1, c2] =
     Inr (sort_reverse score
       [rank_one st jm (nows 0) c1 (srch (unit_row (e (content_for_embedding c1)))),
        rank_one st jm (nows 1) c2 (srch (unit_row (e (content_for_embedding c2))))])"
  by (simp add: rank_available ranked_works_def unit_row_def upt_rec)

lemma sort_reverse_two:
  "sort_reverse k [x, y] = (if k x \<ge> k y then [x, y] else [y, x])"
  by (simp add: sort_reverse_def)

text \<open>
  Claim C3, as stated, at a concrete input. The work \<open>a\<close> was published at the instant
  0 and \<open>b\<close> has no date; only recency has a weight. The clock reads one microsecond
  less than 31 days while the first candidate is scored, and 31 days while the second
  is. Scored first, \<open>a\<close> is 30 whole days old and gets 1; scored second, it is 31 days
  old and gets 0.7. The two orders of the same candidates give different scores.
\<close>

theorem rank_clock_order_counterexample:
  "map_sum id (map score)
     (rank True (\<lambda>_. [1]) (\<lambda>_. [0]) recency_only Map.empty tick_clock
        [dated_work ''a'' (Some 0) Map.empty, dated_work ''b'' None Map.empty]) = Inr [1, 0]
   \<and> map_sum id (map score)
     (rank True (\<lambda>_. [1]) (\<lambda>_. [0]) recency_only Map.empty tick_clock
        [dated_work ''b'' None Map.empty, dated_work ''a'' (Some 0) Map.empty]) = Inr [7 / 10, 0]
   \<and> mset [dated_work ''a'' (Some 0) Map.empty, dated_work ''b'' None Map.empty]
       = mset [dated_work ''b'' None Map.empty, dated_work ''a'' (Some 0) Map.empty]
   \<and> mset [1, 0 :: real] \<noteq> mset [7 / 10, 0]"
  by (simp add: rank_two sort_reverse_two score_recency_only recency_examples tick_clock_def)

lemma rank_one_work:
  "rank True e srch st jm nows [c] =
     Inr [rank_one st jm (nows 0) c (srch (unit_row (e (content_for_embedding c))))]"
  by (simp add: rank_available ranked_works_def unit_row_def sort_reverse_def)

lemma recency_zero:
  "compute_recency 0 (Some \<lparr>wall_us = 0, tzinfo = None\<rparr>) recency_only = 1"
  by (simp add: compute_recency_def Let_def timedelta_days_def utc_us_def us_per_day_def
      recency_only_def dict_get_def)

lemma thresholds_recency_only:
  "thresholds (scoring recency_only) = \<lparr>must_read = 0.8, consider = 0.5\<rparr>"
  by (simp add: recency_only_def)

text \<open>The amended claim C3 under a clock that stands at 31 days, for the two orders.\<close>

theorem rank_sorted_stable_witness:
  "rank True (\<lambda>_. [1]) (\<lambda>_. [0]) recency_only Map.empty (\<lambda>_. 31 * us_per_day)
        [dated_work ''a'' (Some 0) Map.empty, dated_work ''b'' None Map.empty]
     = Inr (projr (rank True (\<lambda>_. [1]) (\<lambda>_. [0]) recency_only Map.empty (\<lambda>_. 31 * us_per_day)
        [dated_work ''a'' (Some 0) Map.empty, dated_work ''b'' None Map.empty]))
   \<and> rank True (\<lambda>_. [1]) (\<lambda>_. [0]) recency_only Map.empty (\<lambda>_. 31 * us_per_day)
        [dated_work ''b'' None Map.empty, dated_work ''a'' (Some 0) Map.empty]
     = Inr (projr (rank True (\<lambda>_. [1]) (\<lambda>_. [0]) recency_only Map.empty (\<lambda>_. 31 * us_per_day)
        [dated_work ''b'' None Map.empty, dated_work ''a'' (Some 0) Map.empty]))
   \<and> mset [dated_work ''b'' None Map.empty, dated_work ''a'' (Some 0) Map.empty]
       = mset [dated_work ''a'' (Some 0) Map.empty, dated_work ''b'' None Map.empty]
   \<and> sorted_wrt (\<lambda>x y. x \<ge> y) (map score
        (projr (rank True (\<lambda>_. [1]) (\<lambda>_. [0]) recency_only Map.empty (\<lambda>_. 31 * us_per_day)
          [dated_work ''a'' (Some 0) Map.empty, dated_work ''b'' None Map.empty])))
   \<and> mset (map score
        (projr (rank True (\<lambda>_. [1]) (\<lambda>_. [0]) recency_only Map.empty (\<lambda>_. 31 * us_per_day)
          [dated_work ''b'' None Map.empty, dated_work ''a'' (Some 0) Map.empty])))
     = mset (map score
        (projr (rank True (\<lambda>_. [1]) (\<lambda>_. [0]) recency_only Map.empty (\<lambda>_. 31 * us_per_day)
          [dated_work ''a'' (Some 0) Map.empty, dated_work ''b'' None Map.empty])))"
proof -
  have h1: "rank True (\<lambda>_. [1]) (\<lambda>_. [0]) recency_only Map.empty (\<lambda>_. 31 * us_per_day)
        [dated_work ''a'' (Some 0) Map.empty, dated_work ''b'' None Map.empty]
     = Inr (projr (rank True (\<lambda>_. [1]) (\<lambda>_. [0]) recency_only Map.empty (\<lambda>_. 31 * us_per_day)
        [dated_work ''a'' (Some 0) Map.empty, dated_work ''b'' None Map.empty]))"
    by (simp add: rank_available)
  have h2: "rank True (\<lambda>_. [1]) (\<lambda>_. [0]) recency_only Map.empty (\<lambda>_. 31 * us_per_day)
        [dated_work ''b'' None Map.empty, dated_work ''a'' (Some 0) Map.empty]
     = Inr (projr (rank True (\<lambda>_. [1]) (\<lambda>_. [0]) recency_only Map.empty (\<lambda>_. 31 * us_per_day)
        [dated_work ''b'' None Map.empty, dated_work ''a'' (Some 0) Map.empty]))"
    by (simp add: rank_available)
  have h3: "mset [dated_work ''b'' None Map.empty, dated_work ''a'' (Some 0) Map.empty]
       = mset [dated_work ''a'' (Some 0) Map.empty, dated_work ''b'' None Map.empty]"
    by simp
  have h4: "\<forall>i::nat. (\<lambda>_. 31 * us_per_day) i = 31 * us_per_day"
    by simp
  show ?thesis
    using h1 h2 h3 h4
      rank_sorted_stable [OF h1, of "31 * us_per_day"
        "[dated_work ''b'' None Map.empty, dated_work ''a'' (Some 0) Map.empty]"
        "projr (rank True (\<lambda>_. [1]) (\<lambda>_. [0]) recency_only Map.empty (\<lambda>_. 31 * us_per_day)
          [dated_work ''b'' None Map.empty, dated_work ''a'' (Some 0) Map.empty])"]
    by blast
qed

text \<open>Claim C4 at one candidate of age 0: its score 1 is above 0.8, its label \<open>must_read\<close>.\<close>

theorem rank_label_bands_witness:
  "rank True (\<lambda>_. [1]) (\<lambda>_. [0]) recency_only Map.empty (\<lambda>_. 0) [dated_work ''a'' (Some 0) Map.empty]
     = Inr [rank_one recency_only Map.empty 0 (dated_work ''a'' (Some 0) Map.empty) [0]]
   \<and> rank_one recency_only Map.empty 0 (dated_work ''a'' (Some 0) Map.empty) [0]
       \<in> set [rank_one recency_only Map.empty 0 (dated_work ''a'' (Some 0) Map.empty) [0]]
   \<and> consider (thresholds (scoring recency_only)) \<le> must_read (thresholds (scoring recency_only))
   \<and> must_read (thresholds (scoring recency_only))
       \<le> score (rank_one recency_only Map.empty 0 (dated_work ''a'' (Some 0) Map.empty) [0])
   \<and> label (rank_one recency_only Map.empty 0 (dated_work ''a'' (Some 0) Map.empty) [0]) = ''must_read''"
proof -
  have h1: "rank True (\<lambda>_. [1]) (\<lambda>_. [0]) recency_only Map.empty (\<lambda>_. 0) [dated_work ''a'' (Some 0) Map.empty]
     = Inr [rank_one recency_only Map.empty 0 (dated_work ''a'' (Some 0) Map.empty) [0]]"
    by (simp add: rank_one_work)
  have h2: "rank_one recency_only Map.empty 0 (dated_work ''a'' (Some 0) Map.empty) [0]
       \<in> set [rank_one recency_only Map.empty 0 (dated_work ''a'' (Some 0) Map.empty) [0]]"
    by simp
  have h3: "consider (thresholds (scoring recency_only)) \<le> must_read (thresholds (scoring recency_only))"
    by (simp add: thresholds_recency_only)
  have h4: "must_read (thresholds (scoring recency_only))
       \<le> score (rank_one recency_only Map.empty 0 (dated_work ''a'' (Some 0) Map.empty) [0])"
    by (simp add: score_recency_only recency_zero thresholds_recency_only)
  show ?thesis
    using h1 h2 h3 h4 rank_label_bands [OF h1 h2 h3] by blast
qed

text \<open>Claim C9 at one candidate.\<close>

theorem rank_keeps_candidate_fields_witness:
  "rank True (\<lambda>_. [1]) (\<lambda>_. [0]) recency_only Map.empty (\<lambda>_. 0) [dated_work ''a'' (Some 0) Map.empty]
     = Inr [rank_one recency_only Map.empty 0 (dated_work ''a'' (Some 0) Map.empty) [0]]
   \<and> mset (map candidate_work.truncate
        [rank_one recency_only Map.empty 0 (dated_work ''a'' (Some 0) Map.empty) [0]])
     = mset [dated_work ''a'' (Some 0) Map.empty]"
proof -
  have h1: "rank True (\<lambda>_. [1]) (\<lambda>_. [0]) recency_only Map.empty (\<lambda>_. 0) [dated_work ''a'' (Some 0) Map.empty]
     = Inr [rank_one recency_only Map.empty 0 (dated_work ''a'' (Some 0) Map.empty) [0]]"
    by (simp add: rank_one_work)
  show ?thesis
    using h1 rank_keeps_candidate_fields [OF h1] by blast
qed

lemma utc_us_replace:
  "utc_us (if tzinfo p = None then p\<lparr>tzinfo := Some 0\<rparr> else p) = utc_us p"
  by (simp add: utc_us_def)

text \<open>
  Claim C5. The recency component is 0 for a candidate without publication date.
  Otherwise, with the default boundaries of 30, 60 and 180 days and the age counted in
  whole days from \<open>now\<close> (and not below 0), it is 1 up to 30 days, 0.7 up to 60 days,
  0.4 up to 180 days and 0.1 beyond. Each boundary belongs to the lower tier: exactly
  30 days give 1, exactly 31 days give 0.7.
\<close>

theorem compute_recency_staircase:
  "compute_recency now None st = 0
   \<and> (dict_get (decay_days (scoring st)) ''fast'' 30 = 30
      \<and> dict_get (decay_days (scoring st)) ''medium'' 60 = 60
      \<and> dict_get (decay_days (scoring st)) ''slow'' 180 = 180 \<longrightarrow>
      compute_recency now (Some p) st =
        (let age = max ((now - utc_us p) div us_per_day) 0
         in if age \<le> 30 then 1 else if age \<le> 60 then 0.7 else if age \<le> 180 then 0.4 else 0.1)
      \<and> (now - utc_us p = 30 * us_per_day \<longrightarrow> compute_recency now (Some p) st = 1)
      \<and> (now - utc_us p = 31 * us_per_day \<longrightarrow> compute_recency now (Some p) st = 0.7))"
proof -
  have r: "compute_recency now (Some p) st =
        (let age = max ((now - utc_us p) div us_per_day) 0
         in if age \<le> dict_get (decay_days (scoring st)) ''fast'' 30 then 1
            else if age \<le> dict_get (decay_days (scoring st)) ''medium'' 60 then 0.7
            else if age \<le> dict_get (decay_days (scoring st)) ''slow'' 180 then 0.4 else 0.1)"
    by (simp add: compute_recency_def Let_def timedelta_days_def utc_us_replace)
  have d30: "(30 * us_per_day) div us_per_day = 30" and d31: "(31 * us_per_day) div us_per_day = 31"
    by (simp_all add: us_per_day_def)
  show ?thesis
    by (simp add: r Let_def d30 d31) (simp add: compute_recency_def)
qed

text \<open>Claim C5 at a work published exactly 30 days ago, and at one published 31 days ago.\<close>

theorem compute_recency_staircase_witness:
  "dict_get (decay_days (scoring recency_only)) ''fast'' 30 = 30
   \<and> dict_get (decay_days (scoring recency_only)) ''medium'' 60 = 60
   \<and> dict_get (decay_days (scoring recency_only)) ''slow'' 180 = 180
   \<and> 31 * us_per_day - utc_us \<lparr>wall_us = us_per_day, tzinfo = Some 0\<rparr> = 30 * us_per_day
   \<and> compute_recency (31 * us_per_day) (Some \<lparr>wall_us = us_per_day, tzinfo = Some 0\<rparr>) recency_only = 1
   \<and> 31 * us_per_day - utc_us \<lparr>wall_us = 0, tzinfo = None\<rparr> = 31 * us_per_day
   \<and> compute_recency (31 * us_per_day) (Some \<lparr>wall_us = 0, tzinfo = None\<rparr>) recency_only = 0.7"
proof -
  have h: "dict_get (decay_days (scoring recency_only)) ''fast'' 30 = 30
   \<and> dict_get (decay_days (scoring recency_only)) ''medium'' 60 = 60
   \<and> dict_get (decay_days (scoring recency_only)) ''slow'' 180 = 180"
    by (simp add: recency_only_def dict_get_def)
  have a: "31 * us_per_day - utc_us \<lparr>wall_us = us_per_day, tzinfo = Some 0\<rparr> = 30 * us_per_day"
    by (simp add: utc_us_def)
  have b: "31 * us_per_day - utc_us \<lparr>wall_us = 0, tzinfo = None\<rparr> = 31 * us_per_day"
    by (simp add: utc_us_def)
  show ?thesis
    using h a b
      compute_recency_staircase [of "31 * us_per_day" recency_only "\<lparr>wall_us = us_per_day, tzinfo = Some 0\<rparr>"]
      compute_recency_staircase [of "31 * us_per_day" recency_only "\<lparr>wall_us = 0, tzinfo = None\<rparr>"]
    by blast
qed








section \<open>Properties of the vectorizer and of the similarity index\<close>












text \<open>
  Claim C1, as stated, at a concrete input: for an array of zero rows and 384 columns
  \<open>from_vectors\<close> raises nothing and returns an index that holds no vector.
\<close>

theorem from_vectors_empty_counterexample:
  "from_vectors True \<lparr>shape = [0, 384], flat = []\<rparr>
     = Inr (\<lparr>dim = 384, index = \<lparr>d = 384, ntotal = 0, xb = []\<rparr>\<rparr>, [])"
  by (simp add: from_vectors_def ndim_def FaissIndex_init_def IndexFlatIP_def index_add_def)

lemma from_vectors_2d:
  "ndim v = 2 \<Longrightarrow>
   from_vectors True v
     = Inr (\<lparr>dim = shape v ! 1,
             index = \<lparr>d = shape v ! 1, ntotal = shape v ! 0, xb = flat v\<rparr>\<rparr>,
            [0 ..< shape v ! 0])"
  by (simp add: from_vectors_def FaissIndex_init_def IndexFlatIP_def index_add_def)

lemma run_ntotal:
  assumes "items \<noteq> []" and "run sa fa e items = Inr idx"
  shows "ntotal (index idx) = length items"
proof -
  from assms obtain vs ord where v: "encode sa e (map item_content_for_embedding items) = Inr vs"
    and f: "from_vectors fa (as_array vs) = Inr (idx, ord)"
    by (auto simp: run_def split: sum.splits prod.splits)
  from encode_Inr [OF v] assms(1) obtain r rs where "vs = r # rs" and "length vs = length items"
    by (cases vs) auto
  then have a: "as_array vs = \<lparr>shape = [length items, length r], flat = concat vs\<rparr>"
    by (simp add: as_array_def)
  from f show ?thesis
    unfolding a
    by (auto simp: from_vectors_def ndim_def FaissIndex_init_def IndexFlatIP_def index_add_def
        split: if_splits)
qed

text \<open>
  Claim C1, amended. \<open>from_vectors\<close> raises \<open>ValueError\<close> exactly when its argument is
  not two-dimensional (so for the empty one-dimensional array), and \<open>RuntimeError\<close>
  when faiss is missing; for a two-dimensional array of \<open>N\<close> rows, \<open>N = 0\<close> included, it
  returns an index over \<open>N\<close> vectors. Zero vectors are refused around it:
  \<open>ProfileBuilder.run\<close> raises \<open>RuntimeError\<close> for an empty library before it
  builds, every index it does build holds as many vectors as there are items, and
  \<open>load\<close> raises for an index without vectors.
\<close>

theorem from_vectors_raises:
  "(ndim v \<noteq> 2 \<longrightarrow> from_vectors fa v = Inl (ValueError ''Vectors must be a 2D array''))
   \<and> (ndim v = 2 \<and> \<not> fa \<longrightarrow>
        from_vectors fa v
          = Inl (RuntimeError ''faiss is required; install faiss-cpu or adjust configuration.''))
   \<and> (ndim v = 2 \<and> fa \<longrightarrow>
        from_vectors fa v
          = Inr (\<lparr>dim = shape v ! 1,
                  index = \<lparr>d = shape v ! 1, ntotal = shape v ! 0, xb = flat v\<rparr>\<rparr>,
                 [0 ..< shape v ! 0]))
   \<and> run sa fa e []
       = Inl (RuntimeError ''No items found in storage; run ingest before building profile.'')
   \<and> (items \<noteq> [] \<and> run sa fa e items = Inr idx \<longrightarrow> ntotal (index idx) = length items)
   \<and> (ntotal i = 0 \<longrightarrow> isl (load fa i))"
  using run_ntotal [of items sa fa e idx]
  by (auto simp: from_vectors_2d) (simp_all add: from_vectors_def FaissIndex_init_def run_def load_def)

text \<open>The amended claim C1 at the empty one-dimensional array and at an empty stored index.\<close>

theorem from_vectors_raises_witness:
  "ndim \<lparr>shape = [0], flat = []\<rparr> \<noteq> 2
   \<and> from_vectors True \<lparr>shape = [0], flat = []\<rparr> = Inl (ValueError ''Vectors must be a 2D array'')
   \<and> ntotal (IndexFlatIP 384) = 0
   \<and> isl (load True (IndexFlatIP 384))"
proof -
  have h1: "ndim \<lparr>shape = [0], flat = []\<rparr> \<noteq> 2"
    by (simp add: ndim_def)
  have h2: "ntotal (IndexFlatIP 384) = 0"
    by (simp add: IndexFlatIP_def)
  show ?thesis
    using h1 h2
      from_vectors_raises [of "\<lparr>shape = [0], flat = []\<rparr>" True sa e "[]" idx "IndexFlatIP 384"]
    by blast
qed

end
